theory Spec2Isabelle
  imports Main "HOL-Library.Word" "HOL-Library.Code_Target_Numeral"
begin

chapter \<open>The request-handling core of the application\<close>

text \<open>
  The development follows \<^verbatim>\<open>src/examples/index.js\<close>: the application class with
  \<^verbatim>\<open>handleRequest\<close>, \<^verbatim>\<open>createContext\<close> and \<^verbatim>\<open>onerror\<close>, and the response helper
  \<^verbatim>\<open>respond\<close>. The middleware composer is required by the application
  (\<^verbatim>\<open>require('koa-compose')\<close>) and is not part of the sources; it is modelled from
  section 4.1 of the specification.
\<close>

section \<open>Middleware composer\<close>

text \<open>
  A completion signal that has settled is either a failure or success. Failures are values:
  the composition-protocol failure carries the position of the middleware it is attributed
  to, a middleware failure carries what was thrown.
\<close>

datatype failure = Composition_protocol int | Thrown string | TypeError string

text \<open>
  History of one pipeline run: \<open>Invoked i\<close> is recorded when the function at position
  \<open>i\<close> is invoked, \<open>Rejected i\<close> when \<open>dispatch i\<close> is refused, \<open>Caught e\<close> when a middleware
  catches the failure \<open>e\<close> of its continuation. The history is never read by the composer
  or by a middleware; it only makes the run observable.
\<close>

datatype event = Invoked int | Rejected int | Caught failure

text \<open>
  The state of one run of a composed handler: the per-invocation dispatch index, the
  request's state bundle (whatever the middleware share), and the history.
\<close>

record 'c run =
  index :: int
  ctx :: 'c
  trace :: "event list"

type_synonym 'c completion = "'c run \<Rightarrow> (failure + unit) \<times> 'c run"

text \<open>
  A middleware accepts the state bundle and a continuation and produces a completion:
  \<^verbatim>\<open>fn(context, next)\<close>. A layer is awaited, so its completion is a state transformer.
\<close>

type_synonym 'c middleware = "'c completion \<Rightarrow> 'c completion"

text \<open>
  Modelled from the spec: the choice of \<^verbatim>\<open>fn\<close> in \<^verbatim>\<open>dispatch(i)\<close> (the composer is not in
  the sources). ``Let fn be the middleware at position i, or, if i equals the sequence length,
  the optional caller-supplied fallback continuation, or, if neither exists, a trivial no-op
  completion'' (\<open>None\<close>).
\<close>

definition pick :: "'c middleware list \<Rightarrow> 'c middleware option \<Rightarrow> int \<Rightarrow> 'c middleware option" where
  "pick middleware next i =
     (if i = int (length middleware) then next
      else if 0 \<le> i \<and> i < int (length middleware) then Some (middleware ! nat i)
      else None)"

text \<open>
  Modelled from the spec: \<^verbatim>\<open>dispatch(i)\<close> of section 4.1. It fails immediately if \<open>i\<close> is less
  than or equal to the last dispatched index, with the failure attributed to the middleware
  at the previous index; otherwise it records \<open>i\<close>, picks \<^verbatim>\<open>fn\<close>, and invokes it with the
  state bundle and a continuation bound to \<^verbatim>\<open>dispatch(i+1)\<close>; the failure of \<^verbatim>\<open>fn\<close> is the
  result of \<^verbatim>\<open>dispatch(i)\<close>.
\<close>

function dispatch :: "'c middleware list \<Rightarrow> 'c middleware option \<Rightarrow> int \<Rightarrow> 'c completion" where
  "dispatch middleware next i = (\<lambda>s.
     if i \<le> index s
     then (Inl (Composition_protocol (i - 1)), s\<lparr>trace := trace s @ [Rejected i]\<rparr>)
     else
       let s' = s\<lparr>index := i\<rparr> in
       case pick middleware next i of
         None \<Rightarrow> (Inr (), s')
       | Some fn \<Rightarrow> fn (dispatch middleware next (i + 1)) (s'\<lparr>trace := trace s' @ [Invoked i]\<rparr>))"
  by pat_completeness auto
termination
  by (relation "measure (\<lambda>(middleware, next, i). nat (int (length middleware) + 1 - i))")
    (auto simp: pick_def split: if_splits)

declare dispatch.simps [simp del]

text \<open>
  Modelled from the spec: the start of a run of the composed handler
  \<^verbatim>\<open>H(context, fallback?)\<close>. Every run starts with a dispatch index of \<open>-1\<close> (nothing
  dispatched yet) and dispatches from the beginning, position \<open>0\<close>. (The sentence ``H is implemented as dispatch(-1)'' cannot be meant
  literally: \<open>dispatch (-1)\<close> with the index at \<open>-1\<close> is refused at once, see
  \<open>dispatch_minus_one\<close>, against every guarantee of that section.)
\<close>

definition fresh :: "'c \<Rightarrow> 'c run" where
  "fresh c = \<lparr>index = - 1, ctx = c, trace = []\<rparr>"

text \<open>
  Modelled from the spec: one run of the composed handler on a state bundle, with the optional
  fallback. The caller sees the completion and the state bundle.
\<close>

definition compose :: "'c middleware list \<Rightarrow> 'c middleware option \<Rightarrow> 'c \<Rightarrow> (failure + unit) \<times> 'c" where
  "compose middleware next c =
     (case dispatch middleware next 0 (fresh c) of (r, s) \<Rightarrow> (r, ctx s))"

subsection \<open>Sequential middleware\<close>

text \<open>
  The body of an asynchronous middleware that awaits what it calls, as a list of steps:
  \<open>Do f\<close> changes the state bundle, \<open>Await_next\<close> is \<^verbatim>\<open>await next()\<close> (a failure of the
  continuation ends the body with that failure), \<open>Try_next h\<close> is
  \<^verbatim>\<open>try { await next() } catch (e) { h(e) }\<close> (the layer intercepts the failure, which
  the history records), and \<open>Throw e\<close> is \<^verbatim>\<open>throw e\<close>.
\<close>

datatype 'c step = Do "'c \<Rightarrow> 'c" | Await_next | Try_next "failure \<Rightarrow> 'c \<Rightarrow> 'c" | Throw string

fun exec :: "'c step list \<Rightarrow> 'c middleware" where
  "exec [] next s = (Inr (), s)"
| "exec (Do f # body) next s = exec body next (s\<lparr>ctx := f (ctx s)\<rparr>)"
| "exec (Await_next # body) next s =
     (case next s of
        (Inl e, s') \<Rightarrow> (Inl e, s')
      | (Inr _, s') \<Rightarrow> exec body next s')"
| "exec (Try_next h # body) next s =
     (case next s of
        (Inl e, s') \<Rightarrow> exec body next (s'\<lparr>ctx := h e (ctx s'), trace := trace s' @ [Caught e]\<rparr>)
      | (Inr _, s') \<Rightarrow> exec body next s')"
| "exec (Throw e # body) next s = (Inl (Thrown e), s)"

text \<open>
  The middleware of the ordering property: it appends its index to the shared log before
  and after invoking its continuation.
\<close>

definition logger :: "nat \<Rightarrow> nat list middleware" where
  "logger k = exec [Do (\<lambda>log. log @ [k]), Await_next, Do (\<lambda>log. log @ [k])]"




text \<open>The positions invoked, the positions refused, and the failures caught, in a history.\<close>

fun invoked :: "event list \<Rightarrow> int list" where
  "invoked [] = []"
| "invoked (Invoked k # evs) = k # invoked evs"
| "invoked (Rejected k # evs) = invoked evs"
| "invoked (Caught e # evs) = invoked evs"

fun rejected :: "event list \<Rightarrow> int list" where
  "rejected [] = []"
| "rejected (Invoked k # evs) = rejected evs"
| "rejected (Rejected k # evs) = k # rejected evs"
| "rejected (Caught e # evs) = rejected evs"

fun caught :: "event list \<Rightarrow> failure list" where
  "caught [] = []"
| "caught (Invoked k # evs) = caught evs"
| "caught (Rejected k # evs) = caught evs"
| "caught (Caught e # evs) = e # caught evs"




section \<open>Values of the runtime\<close>

text \<open>
  Text is a list of bytes (the UTF-8 encoding), so \<^verbatim>\<open>Buffer.byteLength(s)\<close> is \<open>length s\<close>.
  \<^verbatim>\<open>String(n)\<close> of an integer is its decimal numeral.
\<close>

definition digit_char :: "nat \<Rightarrow> char" where
  "digit_char d = ''0123456789'' ! d"

fun digits :: "nat \<Rightarrow> string" where
  "digits n = (if n < 10 then [digit_char n] else digits (n div 10) @ [digit_char (n mod 10)])"

declare digits.simps [simp del]

definition to_string :: "int \<Rightarrow> string" where
  "to_string n = (if n < 0 then CHR ''-'' # digits (nat (- n)) else digits (nat n))"

subsection \<open>Numbers\<close>

text \<open>
  A number of the runtime is \<^verbatim>\<open>NaN\<close>, an infinity, a zero (each of the two with its sign:
  \<open>True\<close> is negative), or a finite number other than zero. The latter is given by the
  decimal that \<^verbatim>\<open>Number::toString\<close> is defined from: \<open>Decimal neg s n\<close>, where \<open>s\<close> has \<open>k\<close>
  decimal digits, is the number \<open>s \<times> 10^(n - k)\<close>, negated if \<open>neg\<close>, and \<open>s\<close> is positive and
  has as few digits as identify the number, so it does not end in the digit 0. Which decimal
  identifies a binary floating-point number is arithmetic in floating point and stays
  outside: numbers are given by their decimal.
\<close>

datatype number = Not_a_number | Infinite bool | Zero bool | Decimal bool nat int

text \<open>
  \<^verbatim>\<open>Number::toString\<close> for radix 10. With \<open>k\<close> digits of \<open>s\<close>: the digits followed by
  \<open>n - k\<close> zeros if \<open>k \<le> n \<le> 21\<close>; the digits with a point after the first \<open>n\<close> if
  \<open>0 < n \<le> 21\<close>; \<^verbatim>\<open>0.\<close>, \<open>- n\<close> zeros and the digits if \<open>-6 < n \<le> 0\<close>; otherwise the
  exponent form, with a point after the first digit if there is more than one, and the
  exponent \<open>n - 1\<close> with its sign.
\<close>

definition exponent :: "int \<Rightarrow> string" where
  "exponent e = (if 0 \<le> e then CHR ''+'' # digits (nat e) else CHR ''-'' # digits (nat (- e)))"

definition decimal_text :: "nat \<Rightarrow> int \<Rightarrow> string" where
  "decimal_text s n =
     (let ds = digits s; k = int (length ds) in
      if k \<le> n \<and> n \<le> 21 then ds @ replicate (nat (n - k)) CHR ''0''
      else if 0 < n \<and> n \<le> 21 then take (nat n) ds @ ''.'' @ drop (nat n) ds
      else if - 6 < n \<and> n \<le> 0 then ''0.'' @ replicate (nat (- n)) CHR ''0'' @ ds
      else if k = 1 then ds @ ''e'' @ exponent (n - 1)
      else take 1 ds @ ''.'' @ drop 1 ds @ ''e'' @ exponent (n - 1))"

definition number_text :: "number \<Rightarrow> string" where
  "number_text x =
     (case x of
        Not_a_number \<Rightarrow> ''NaN''
      | Infinite neg \<Rightarrow> (if neg then ''-Infinity'' else ''Infinity'')
      | Zero neg \<Rightarrow> ''0''
      | Decimal neg s n \<Rightarrow> (if neg then CHR ''-'' # decimal_text s n else decimal_text s n))"

fun finite_number :: "number \<Rightarrow> bool" where
  "finite_number Not_a_number = False"
| "finite_number (Infinite neg) = False"
| "finite_number _ = True"

subsection \<open>Values and their serialization\<close>

text \<open>
  The values that a body can hold besides a byte buffer and a stream: \<^verbatim>\<open>undefined\<close>,
  \<^verbatim>\<open>null\<close>, booleans, numbers, text, functions, arrays and plain objects. An object is the
  list of its own enumerable properties in enumeration order. \<open>JCycle\<close>, inside an array
  or an object, is a reference back to an array or object that contains it.
\<close>

datatype jsval =
    JUndefined
  | JNull
  | JBool bool
  | JNum number
  | JStr string
  | JFunction
  | JArr "jsval list"
  | JObj "(string \<times> jsval) list"
  | JCycle

text \<open>
  \<^verbatim>\<open>JSON.stringify(value)\<close> returns a text, returns \<^verbatim>\<open>undefined\<close>, or throws a
  \<^verbatim>\<open>TypeError\<close> with a message.
\<close>

datatype serialized = Throws string | No_text | Text string

text \<open>
  A string is quoted with the two-character escapes for backspace, tab, line feed, form
  feed, carriage return, the quotation mark and the backslash, and \<^verbatim>\<open>\u00XX\<close> for the other
  control characters. A number that is not finite is written as \<^verbatim>\<open>null\<close>, a finite one as
  \<^verbatim>\<open>Number::toString\<close> writes it. \<^verbatim>\<open>undefined\<close> and a function have no serialized form;
  as an element of an array they are written as \<^verbatim>\<open>null\<close>, and a property with such a value
  is left out. A cyclic structure makes the serialization throw, at the first reference that
  closes a cycle.
\<close>

definition hex_char :: "nat \<Rightarrow> char" where
  "hex_char d = ''0123456789abcdef'' ! d"

definition escape :: "char \<Rightarrow> string" where
  "escape c =
     (if c = CHR 0x22 then [CHR 0x5C, CHR 0x22]
      else if c = CHR 0x5C then [CHR 0x5C, CHR 0x5C]
      else if c = CHR 0x08 then [CHR 0x5C, CHR ''b'']
      else if c = CHR 0x09 then [CHR 0x5C, CHR ''t'']
      else if c = CHR 0x0A then [CHR 0x5C, CHR ''n'']
      else if c = CHR 0x0C then [CHR 0x5C, CHR ''f'']
      else if c = CHR 0x0D then [CHR 0x5C, CHR ''r'']
      else if of_char c < (32 :: nat)
      then [CHR 0x5C, CHR ''u'', CHR ''0'', CHR ''0'',
            hex_char (of_char c div 16), hex_char (of_char c mod 16)]
      else [c])"

definition quote :: "string \<Rightarrow> string" where
  "quote s = CHR 0x22 # concat (map escape s) @ [CHR 0x22]"

fun join :: "string list \<Rightarrow> string" where
  "join [] = []"
| "join [x] = x"
| "join (x # y # ys) = x @ '','' @ join (y # ys)"

fun stringify :: "jsval \<Rightarrow> serialized"
  and elements :: "jsval list \<Rightarrow> string + string list"
  and members :: "(string \<times> jsval) list \<Rightarrow> string + string list" where
  "stringify JUndefined = No_text"
| "stringify JFunction = No_text"
| "stringify JCycle = Throws ''Converting circular structure to JSON''"
| "stringify JNull = Text ''null''"
| "stringify (JBool b) = Text (if b then ''true'' else ''false'')"
| "stringify (JNum x) = Text (if finite_number x then number_text x else ''null'')"
| "stringify (JStr s) = Text (quote s)"
| "stringify (JArr xs) =
     (case elements xs of
        Inl m \<Rightarrow> Throws m
      | Inr ss \<Rightarrow> Text (''['' @ join ss @ '']''))"
| "stringify (JObj kvs) =
     (case members kvs of
        Inl m \<Rightarrow> Throws m
      | Inr ss \<Rightarrow> Text (''{'' @ join ss @ ''}''))"
| "elements [] = Inr []"
| "elements (x # xs) =
     (case stringify x of
        Throws m \<Rightarrow> Inl m
      | No_text \<Rightarrow> (case elements xs of Inl m \<Rightarrow> Inl m | Inr ss \<Rightarrow> Inr (''null'' # ss))
      | Text s \<Rightarrow> (case elements xs of Inl m \<Rightarrow> Inl m | Inr ss \<Rightarrow> Inr (s # ss)))"
| "members [] = Inr []"
| "members ((k, v) # kvs) =
     (case stringify v of
        Throws m \<Rightarrow> Inl m
      | No_text \<Rightarrow> members kvs
      | Text s \<Rightarrow>
          (case members kvs of Inl m \<Rightarrow> Inl m | Inr ss \<Rightarrow> Inr ((quote k @ '':'' @ s) # ss)))"

text \<open>
  The values that reach the last branch of the response helper: neither absent nor text.
\<close>

fun structured :: "jsval \<Rightarrow> bool" where
  "structured JUndefined = False"
| "structured JNull = False"
| "structured (JStr s) = False"
| "structured _ = True"

subsection \<open>Reading a JSON text\<close>

text \<open>
  \<^verbatim>\<open>JSON.parse(text)\<close> without a reviver. Insignificant whitespace is skipped around every
  token.
\<close>

definition whitespace :: "char \<Rightarrow> bool" where
  "whitespace c \<longleftrightarrow> c = CHR 0x20 \<or> c = CHR 0x09 \<or> c = CHR 0x0A \<or> c = CHR 0x0D"

definition skip :: "string \<Rightarrow> string" where
  "skip a = dropWhile whitespace a"

text \<open>
  A string token, read from behind its opening quotation mark up to the closing one. An
  escape \<^verbatim>\<open>\uXXXX\<close> denotes a code unit, which is written in UTF-8; a code unit of a
  surrogate pair is not read (\<open>None\<close>). A control character cannot stand in a string.
\<close>

definition hex_val :: "char \<Rightarrow> nat option" where
  "hex_val c =
     (let n = (of_char c :: nat) in
      if 48 \<le> n \<and> n \<le> 57 then Some (n - 48)
      else if 97 \<le> n \<and> n \<le> 102 then Some (n - 87)
      else if 65 \<le> n \<and> n \<le> 70 then Some (n - 55)
      else None)"

definition utf8 :: "nat \<Rightarrow> string option" where
  "utf8 u =
     (if u < 128 then Some [char_of u]
      else if u < 2048 then Some [char_of (192 + u div 64), char_of (128 + u mod 64)]
      else if 55296 \<le> u \<and> u < 57344 then None
      else Some [char_of (224 + u div 4096), char_of (128 + u div 64 mod 64),
                 char_of (128 + u mod 64)])"

definition unescape :: "char \<Rightarrow> char option" where
  "unescape c =
     (if c = CHR 0x22 \<or> c = CHR 0x5C \<or> c = CHR ''/'' then Some c
      else if c = CHR ''b'' then Some (CHR 0x08)
      else if c = CHR ''t'' then Some (CHR 0x09)
      else if c = CHR ''n'' then Some (CHR 0x0A)
      else if c = CHR ''f'' then Some (CHR 0x0C)
      else if c = CHR ''r'' then Some (CHR 0x0D)
      else None)"

definition code_unit :: "string \<Rightarrow> nat option" where
  "code_unit hs =
     (case map hex_val hs of
        [Some a, Some b, Some c, Some d] \<Rightarrow> Some (((a * 16 + b) * 16 + c) * 16 + d)
      | _ \<Rightarrow> None)"

fun parse_chars :: "string \<Rightarrow> (string \<times> string) option" where
  "parse_chars [] = None"
| "parse_chars (c # cs) =
     (if c = CHR 0x22 then Some ([], cs)
      else if c = CHR 0x5C then
        (case cs of
           [] \<Rightarrow> None
         | e # r \<Rightarrow>
             if e = CHR ''u'' then
               (case r of
                  h1 # h2 # h3 # h4 # r' \<Rightarrow>
                    (case Option.bind (code_unit [h1, h2, h3, h4]) utf8 of
                       None \<Rightarrow> None
                     | Some bs \<Rightarrow>
                         (case parse_chars r' of
                            None \<Rightarrow> None
                          | Some (s, rest) \<Rightarrow> Some (bs @ s, rest)))
                | _ \<Rightarrow> None)
             else
               (case unescape e of
                  None \<Rightarrow> None
                | Some ch \<Rightarrow>
                    (case parse_chars r of
                       None \<Rightarrow> None
                     | Some (s, rest) \<Rightarrow> Some (ch # s, rest))))
      else if of_char c < (32 :: nat) then None
      else
        (case parse_chars cs of
           None \<Rightarrow> None
         | Some (s, rest) \<Rightarrow> Some (c # s, rest)))"

text \<open>
  A number token: an optional minus sign, the integer part (a single 0, or digits that do
  not start with 0), an optional fraction (a point and at least one digit) and an optional
  exponent (\<^verbatim>\<open>e\<close> or \<^verbatim>\<open>E\<close>, an optional sign and at least one digit). The token denotes a
  decimal, \<open>digits \<times> 10^e\<close>, which is brought to the form of a number: zeros at the front
  and at the end of the digits are dropped. The number that \<^verbatim>\<open>JSON.parse\<close> returns is the one
  nearest to the decimal; the two agree where the token has no more digits than identify a
  number, as the tokens that \<^verbatim>\<open>Number::toString\<close> writes. Rounding a longer token, or
  one beyond the range of the numbers, is arithmetic in floating point and stays outside.
\<close>

definition digit :: "char \<Rightarrow> bool" where
  "digit c \<longleftrightarrow> c \<in> set ''0123456789''"

definition digit_val :: "char \<Rightarrow> nat" where
  "digit_val c = of_char c - 48"

definition digits_val :: "string \<Rightarrow> nat" where
  "digits_val cs = foldl (\<lambda>a c. 10 * a + digit_val c) 0 cs"

definition number_of :: "bool \<Rightarrow> string \<Rightarrow> int \<Rightarrow> number" where
  "number_of neg ds e =
     (let ds1 = dropWhile (\<lambda>c. c = CHR ''0'') ds;
          z = length (takeWhile (\<lambda>c. c = CHR ''0'') (rev ds1))
      in if ds1 = [] then Zero neg
         else Decimal neg (digits_val (take (length ds1 - z) ds1)) (int (length ds1) + e))"

definition parse_number :: "string \<Rightarrow> (number \<times> string) option" where
  "parse_number a =
     (let neg = (a \<noteq> [] \<and> hd a = CHR ''-'');
          a1 = (if neg then tl a else a);
          ip = takeWhile digit a1;
          a2 = dropWhile digit a1;
          dot = (a2 \<noteq> [] \<and> hd a2 = CHR ''.'');
          fp = (if dot then takeWhile digit (tl a2) else []);
          a3 = (if dot then dropWhile digit (tl a2) else a2);
          ex = (a3 \<noteq> [] \<and> (hd a3 = CHR ''e'' \<or> hd a3 = CHR ''E''));
          a4 = (if ex then tl a3 else a3);
          minus = (ex \<and> a4 \<noteq> [] \<and> hd a4 = CHR ''-'');
          a5 = (if ex \<and> a4 \<noteq> [] \<and> (hd a4 = CHR ''+'' \<or> hd a4 = CHR ''-'') then tl a4 else a4);
          ep = (if ex then takeWhile digit a5 else []);
          a6 = (if ex then dropWhile digit a5 else a3);
          e = (if minus then - int (digits_val ep) else int (digits_val ep))
      in if ip = [] \<or> (hd ip = CHR ''0'' \<and> length ip \<noteq> 1) \<or> (dot \<and> fp = []) \<or> (ex \<and> ep = [])
         then None
         else Some (number_of neg (ip @ fp) (e - int (length fp)), a6))"

text \<open>
  The object that a list of members denotes: the members are defined one after the other
  as properties of a new object. A key that the object has already keeps its place and
  gets the new value; a new key that is an array index (the canonical numeral of an integer
  below \<open>2^32 - 1\<close>) goes among the array indices, which an object enumerates first and in
  ascending order; any other new key goes to the end.
\<close>

definition array_index :: "string \<Rightarrow> nat option" where
  "array_index k =
     (if k \<noteq> [] \<and> (\<forall>c \<in> set k. digit c) \<and> (hd k = CHR ''0'' \<longrightarrow> length k = 1) \<and>
         digits_val k < 4294967295
      then Some (digits_val k) else None)"

fun insert_index :: "nat \<Rightarrow> string \<Rightarrow> jsval \<Rightarrow> (string \<times> jsval) list \<Rightarrow> (string \<times> jsval) list" where
  "insert_index i k v [] = [(k, v)]"
| "insert_index i k v ((k', v') # kvs) =
     (case array_index k' of
        None \<Rightarrow> (k, v) # (k', v') # kvs
      | Some i' \<Rightarrow> if i' < i then (k', v') # insert_index i k v kvs else (k, v) # (k', v') # kvs)"

definition define_property :: "(string \<times> jsval) list \<Rightarrow> string \<times> jsval \<Rightarrow> (string \<times> jsval) list" where
  "define_property kvs kv =
     (if fst kv \<in> fst ` set kvs
      then map (\<lambda>kv'. if fst kv' = fst kv then kv else kv') kvs
      else case array_index (fst kv) of
             None \<Rightarrow> kvs @ [kv]
           | Some i \<Rightarrow> insert_index i (fst kv) (snd kv) kvs)"

definition properties :: "(string \<times> jsval) list \<Rightarrow> (string \<times> jsval) list" where
  "properties kvs = foldl define_property [] kvs"

text \<open>
  A value, the elements of an array from behind the opening bracket, and the members of an
  object from behind the opening brace; each with the text that follows. The first argument
  bounds the number of nested calls; the length of the text is enough.
\<close>

fun parse_value :: "nat \<Rightarrow> string \<Rightarrow> (jsval \<times> string) option"
  and parse_elements :: "nat \<Rightarrow> string \<Rightarrow> (jsval list \<times> string) option"
  and parse_members :: "nat \<Rightarrow> string \<Rightarrow> ((string \<times> jsval) list \<times> string) option" where
  "parse_value 0 a = None"
| "parse_value (Suc f) a =
     (case skip a of
        [] \<Rightarrow> None
      | c # cs \<Rightarrow>
          if c = CHR ''n'' then (if take 3 cs = ''ull'' then Some (JNull, drop 3 cs) else None)
          else if c = CHR ''t'' then
            (if take 3 cs = ''rue'' then Some (JBool True, drop 3 cs) else None)
          else if c = CHR ''f'' then
            (if take 4 cs = ''alse'' then Some (JBool False, drop 4 cs) else None)
          else if c = CHR 0x22 then
            (case parse_chars cs of None \<Rightarrow> None | Some (s, r) \<Rightarrow> Some (JStr s, r))
          else if c = CHR ''['' then
            (if skip cs \<noteq> [] \<and> hd (skip cs) = CHR '']'' then Some (JArr [], tl (skip cs))
             else case parse_elements f cs of
                    None \<Rightarrow> None
                  | Some (vs, r) \<Rightarrow> Some (JArr vs, r))
          else if c = CHR ''{'' then
            (if skip cs \<noteq> [] \<and> hd (skip cs) = CHR ''}'' then Some (JObj [], tl (skip cs))
             else case parse_members f cs of
                    None \<Rightarrow> None
                  | Some (kvs, r) \<Rightarrow> Some (JObj (properties kvs), r))
          else
            (case parse_number (c # cs) of None \<Rightarrow> None | Some (x, r) \<Rightarrow> Some (JNum x, r)))"
| "parse_elements 0 a = None"
| "parse_elements (Suc f) a =
     (case parse_value f a of
        None \<Rightarrow> None
      | Some (v, r) \<Rightarrow>
          (case skip r of
             [] \<Rightarrow> None
           | c # r' \<Rightarrow>
               if c = CHR '']'' then Some ([v], r')
               else if c = CHR '','' then
                 (case parse_elements f r' of
                    None \<Rightarrow> None
                  | Some (vs, r'') \<Rightarrow> Some (v # vs, r''))
               else None))"
| "parse_members 0 a = None"
| "parse_members (Suc f) a =
     (case skip a of
        [] \<Rightarrow> None
      | q # a' \<Rightarrow>
          if q \<noteq> CHR 0x22 then None
          else
            (case parse_chars a' of
               None \<Rightarrow> None
             | Some (k, r) \<Rightarrow>
                 (case skip r of
                    [] \<Rightarrow> None
                  | c # r1 \<Rightarrow>
                      if c \<noteq> CHR '':'' then None
                      else
                        (case parse_value f r1 of
                           None \<Rightarrow> None
                         | Some (v, r2) \<Rightarrow>
                             (case skip r2 of
                                [] \<Rightarrow> None
                              | d # r3 \<Rightarrow>
                                  if d = CHR ''}'' then Some ([(k, v)], r3)
                                  else if d = CHR '','' then
                                    (case parse_members f r3 of
                                       None \<Rightarrow> None
                                     | Some (kvs, r4) \<Rightarrow> Some ((k, v) # kvs, r4))
                                  else None)))))"

definition JSON_parse :: "string \<Rightarrow> jsval option" where
  "JSON_parse a =
     (case parse_value (Suc (length a)) a of
        None \<Rightarrow> None
      | Some (v, r) \<Rightarrow> if skip r = [] then Some v else None)"

text \<open>
  JSON data: the values that a JSON text denotes. \<^verbatim>\<open>null\<close>, booleans, text, finite numbers
  other than the negative zero, arrays of JSON data, and objects whose property values are
  JSON data. The number is one of the runtime (its digits are those of a positive integer
  without a final 0), and the list of properties is in the order in which an object
  enumerates them, the order in which defining them one after the other leaves them.
\<close>

fun json_number :: "number \<Rightarrow> bool" where
  "json_number (Decimal neg s n) = (0 < s \<and> s mod 10 \<noteq> 0)"
| "json_number (Zero neg) = (\<not> neg)"
| "json_number _ = False"

fun json_data :: "jsval \<Rightarrow> bool" where
  "json_data JNull = True"
| "json_data (JBool b) = True"
| "json_data (JNum x) = json_number x"
| "json_data (JStr s) = True"
| "json_data (JArr xs) = (\<forall>x \<in> set xs. json_data x)"
| "json_data (JObj kvs) = (properties kvs = kvs \<and> (\<forall>kv \<in> set kvs. json_data (snd kv)))"
| "json_data _ = False"

section \<open>The transport and the per-request state bundle\<close>

text \<open>
  The raw request and response handles of the transport, with what the response helper
  reads and writes. A byte is an 8-bit word. \<open>ended\<close> lists the arguments of the calls of \<^verbatim>\<open>res.end\<close> so far
  (\<open>None\<close> for a call without payload), \<open>piped\<close> the streams piped into the response.
  A header is looked up under the name the source writes.
\<close>

type_synonym byte = "8 word"

datatype payload = Bytes "byte list" | Chars string

record req =
  req_method :: string
  url :: string
  httpVersionMajor :: int

record 'st res =
  statusCode :: int
  headersSent :: bool
  headers :: "string \<rightharpoonup> string"
  ended :: "payload option list"
  piped :: "'st list"

text \<open>
  A body is a value (\<^verbatim>\<open>undefined\<close> and \<^verbatim>\<open>null\<close> are the absent body, \<open>JStr\<close> is text), a
  byte buffer or a readable stream.
\<close>

datatype 'st body = Data jsval | Buffer "byte list" | Stream 'st

text \<open>
  The state bundle as the response helper sees it: \<open>ctx_respond\<close> is the field
  \<^verbatim>\<open>ctx.respond\<close> (\<open>None\<close> when it was never assigned), \<open>writable\<close> what \<^verbatim>\<open>ctx.writable\<close>
  answers, \<open>explicitNullBody\<close> the flag \<^verbatim>\<open>ctx.response._explicitNullBody\<close>.
\<close>

record 'st koa_ctx =
  ctx_respond :: "bool option"
  writable :: bool
  req :: req
  res :: "'st res"
  ctx_body :: "'st body"
  explicitNullBody :: bool

text \<open>
  The tables of the \<^verbatim>\<open>statuses\<close> module are not in the sources and are parameters:
  \<open>statuses_empty\<close> is \<^verbatim>\<open>statuses.empty[code]\<close>, \<open>statuses_message\<close> the human-readable
  message of a status code (empty when there is none).
\<close>

record env =
  statuses_empty :: "int \<Rightarrow> bool"
  statuses_message :: "int \<Rightarrow> string"

text \<open>
  Modelled from the spec: the accessors of the request and response views, defined outside
  the sources. The status of the bundle is the status code of the transport response
  (``a response handle with a mutable status code''); the message is ``the status's
  human-readable message''; the method is the method token of the request handle.
\<close>

definition status :: "'st koa_ctx \<Rightarrow> int" where
  "status c = statusCode (res c)"

definition message :: "env \<Rightarrow> 'st koa_ctx \<Rightarrow> string" where
  "message e c = statuses_message e (status c)"

definition has :: "'st koa_ctx \<Rightarrow> string \<Rightarrow> bool" where
  "has c field \<longleftrightarrow> headers (res c) field \<noteq> None"

text \<open>
  Modelled from the spec: \<^verbatim>\<open>set\<close> and \<^verbatim>\<open>remove\<close> of the response view, defined outside the
  sources. ``Once headers have been sent by any earlier step, later steps must not attempt
  to set headers'': both leave the headers as they are once the headers are sent.
\<close>

definition set_header :: "string \<Rightarrow> string \<Rightarrow> 'st koa_ctx \<Rightarrow> 'st koa_ctx" where
  "set_header field v c =
     (if headersSent (res c) then c
      else c\<lparr>res := (res c)\<lparr>headers := (headers (res c))(field \<mapsto> v)\<rparr>\<rparr>)"

definition remove :: "string \<Rightarrow> 'st koa_ctx \<Rightarrow> 'st koa_ctx" where
  "remove field c =
     (if headersSent (res c) then c
      else c\<lparr>res := (res c)\<lparr>headers := (headers (res c))(field := None)\<rparr>\<rparr>)"

text \<open>
  Modelled from the spec: the setters used by the response helper, defined outside the
  sources. Assigning \<^verbatim>\<open>null\<close> to the body discards the body, makes the status 204 unless it
  is a no-body status already or the headers are sent, marks the body as explicitly null,
  and strips the body-related headers (``discard any body, end the response with no payload
  and no body-related headers''; the source's comment at the assignment is ``strip
  headers''), which has no effect once the headers are sent. Assigning the type \<^verbatim>\<open>'text'\<close>
  ``sets content-type to plain text''; assigning the length sets the length header.
\<close>

definition set_body_null :: "env \<Rightarrow> 'st koa_ctx \<Rightarrow> 'st koa_ctx" where
  "set_body_null e c =
     (let c1 = c\<lparr>ctx_body := Data JNull\<rparr>;
          c2 = (if \<not> statuses_empty e (status c1) \<and> \<not> headersSent (res c1)
                then c1\<lparr>res := (res c1)\<lparr>statusCode := 204\<rparr>\<rparr> else c1);
          c3 = c2\<lparr>explicitNullBody := True\<rparr>
      in remove ''Transfer-Encoding'' (remove ''Content-Length'' (remove ''Content-Type'' c3)))"

definition set_type_text :: "'st koa_ctx \<Rightarrow> 'st koa_ctx" where
  "set_type_text c = set_header ''Content-Type'' ''text/plain; charset=utf-8'' c"

definition set_length :: "nat \<Rightarrow> 'st koa_ctx \<Rightarrow> 'st koa_ctx" where
  "set_length n c = set_header ''Content-Length'' (to_string (int n)) c"

text \<open>
  A value that counts as false: \<^verbatim>\<open>undefined\<close>, \<^verbatim>\<open>null\<close>, \<^verbatim>\<open>false\<close>, a zero, \<^verbatim>\<open>NaN\<close> and the
  empty text.
\<close>

fun falsy :: "jsval \<Rightarrow> bool" where
  "falsy JUndefined = True"
| "falsy JNull = True"
| "falsy (JBool b) = (\<not> b)"
| "falsy (JNum x) = (case x of Not_a_number \<Rightarrow> True | Zero neg \<Rightarrow> True | _ \<Rightarrow> False)"
| "falsy (JStr s) = (s = [])"
| "falsy _ = False"

text \<open>
  What \<^verbatim>\<open>Buffer.byteLength\<close> throws when it is given no text.
\<close>

definition no_text_error :: failure where
  "no_text_error = TypeError ''The string argument must be of type string''"

text \<open>
  Modelled from the spec: \<^verbatim>\<open>ctx.response.length\<close> of a response without length header,
  ``the would-be body length'': none (\<open>None\<close>) for a body that counts as false and for a
  stream, the byte length of text and of a buffer, and otherwise the byte length of the
  serialized body; the getter throws what the serialization throws.
\<close>

definition response_length :: "'st koa_ctx \<Rightarrow> failure + nat option" where
  "response_length c =
     (case ctx_body c of
        Buffer bs \<Rightarrow> Inr (Some (length bs))
      | Stream st \<Rightarrow> Inr None
      | Data v \<Rightarrow>
          if falsy v then Inr None
          else
            (case v of
               JStr s \<Rightarrow> Inr (Some (length s))
             | _ \<Rightarrow>
                 (case stringify v of
                    Throws m \<Rightarrow> Inl (TypeError m)
                  | No_text \<Rightarrow> Inl no_text_error
                  | Text b \<Rightarrow> Inr (Some (length b)))))"

text \<open>The transport's \<^verbatim>\<open>res.end(payload?)\<close> and \<^verbatim>\<open>body.pipe(res)\<close>.\<close>

definition res_end :: "payload option \<Rightarrow> 'st koa_ctx \<Rightarrow> 'st koa_ctx" where
  "res_end p c = c\<lparr>res := (res c)\<lparr>ended := ended (res c) @ [p]\<rparr>\<rparr>"

definition pipe :: "'st \<Rightarrow> 'st koa_ctx \<Rightarrow> 'st koa_ctx" where
  "pipe st c = c\<lparr>res := (res c)\<lparr>piped := piped (res c) @ [st]\<rparr>\<rparr>"

section \<open>Response helper\<close>

text \<open>\<^verbatim>\<open>null == body\<close>: the body is \<^verbatim>\<open>null\<close> or \<^verbatim>\<open>undefined\<close>.\<close>

fun nullish :: "'st body \<Rightarrow> bool" where
  "nullish (Data JUndefined) = True"
| "nullish (Data JNull) = True"
| "nullish _ = False"

text \<open>
  \<^verbatim>\<open>respond(ctx)\<close>, branch by branch in the order of the source. The result is the state
  bundle after the call, or what the call throws: what the length getter throws for a
  \<^verbatim>\<open>HEAD\<close> request, what \<^verbatim>\<open>JSON.stringify\<close> throws in the last branch, and what
  \<^verbatim>\<open>Buffer.byteLength\<close> throws there when the body has no serialized form. A call that
  throws has written nothing before.
\<close>

definition respond :: "env \<Rightarrow> 'st koa_ctx \<Rightarrow> failure + 'st koa_ctx" where
  "respond e c =
     (if ctx_respond c = Some False then Inr c
      else if \<not> writable c then Inr c
      else
        let code = status c in
        if statuses_empty e code then Inr (res_end None (set_body_null e c))
        else if req_method (req c) = ''HEAD'' then
          (if \<not> headersSent (res c) \<and> \<not> has c ''Content-Length''
           then (case response_length c of
                   Inl err \<Rightarrow> Inl err
                 | Inr (Some n) \<Rightarrow> Inr (res_end None (set_length n c))
                 | Inr None \<Rightarrow> Inr (res_end None c))
           else Inr (res_end None c))
        else if nullish (ctx_body c) then
          (if explicitNullBody c
           then Inr (res_end None (remove ''Transfer-Encoding'' (remove ''Content-Type'' c)))
           else
             let b = (if 2 \<le> httpVersionMajor (req c) then to_string code
                      else if message e c \<noteq> [] then message e c else to_string code)
             in Inr (res_end (Some (Chars b))
                  (if \<not> headersSent (res c) then set_length (length b) (set_type_text c) else c)))
        else
          (case ctx_body c of
             Buffer bs \<Rightarrow> Inr (res_end (Some (Bytes bs)) c)
           | Data (JStr s) \<Rightarrow> Inr (res_end (Some (Chars s)) c)
           | Stream st \<Rightarrow> Inr (pipe st c)
           | Data v \<Rightarrow>
               (case stringify v of
                  Throws m \<Rightarrow> Inl (TypeError m)
                | No_text \<Rightarrow>
                    if \<not> headersSent (res c) then Inl no_text_error
                    else Inr (res_end None c)
                | Text b \<Rightarrow>
                    Inr (res_end (Some (Chars b))
                      (if \<not> headersSent (res c) then set_length (length b) c else c)))))"

text \<open>
  The decision table of section 4.3 of the specification: the rows in their order, and the
  row that applies to a state bundle, the first whose condition holds.
\<close>

datatype 'st row =
    No_body_status
  | Header_only
  | Explicit_null_body
  | Fallback_body
  | Raw_bytes "byte list"
  | Plain_text string
  | Readable_stream 'st
  | Structured_value jsval

definition table_row :: "env \<Rightarrow> 'st koa_ctx \<Rightarrow> 'st row" where
  "table_row e c =
     (if statuses_empty e (status c) then No_body_status
      else if req_method (req c) = ''HEAD'' then Header_only
      else
        (case ctx_body c of
           Data JUndefined \<Rightarrow> if explicitNullBody c then Explicit_null_body else Fallback_body
         | Data JNull \<Rightarrow> if explicitNullBody c then Explicit_null_body else Fallback_body
         | Buffer bs \<Rightarrow> Raw_bytes bs
         | Data (JStr s) \<Rightarrow> Plain_text s
         | Stream st \<Rightarrow> Readable_stream st
         | Data v \<Rightarrow> Structured_value v))"

text \<open>
  What a row of the table does to the state bundle, in the words of the table. The fallback
  body is the stringified status code for a major protocol version of at least 2, otherwise
  the message of the status, or the stringified code if there is no message. Where a row
  serializes the body (the would-be length of the header-only row, the last row), a failure
  of the serialization is the failure of the row, before anything is written; a body
  without serialized form ends the response without payload if the headers are sent, and
  fails where its byte length is asked for.
\<close>

definition fallback_text :: "env \<Rightarrow> 'st koa_ctx \<Rightarrow> string" where
  "fallback_text e c =
     (if 2 \<le> httpVersionMajor (req c) then to_string (status c)
      else if statuses_message e (status c) \<noteq> [] then statuses_message e (status c)
      else to_string (status c))"

fun row_effect :: "env \<Rightarrow> 'st row \<Rightarrow> 'st koa_ctx \<Rightarrow> failure + 'st koa_ctx" where
  "row_effect e No_body_status c = Inr (res_end None (set_body_null e c))"
| "row_effect e Header_only c =
     (if headersSent (res c) \<or> has c ''Content-Length'' then Inr (res_end None c)
      else case response_length c of
             Inl err \<Rightarrow> Inl err
           | Inr None \<Rightarrow> Inr (res_end None c)
           | Inr (Some n) \<Rightarrow> Inr (res_end None (set_length n c)))"
| "row_effect e Explicit_null_body c =
     Inr (res_end None (remove ''Transfer-Encoding'' (remove ''Content-Type'' c)))"
| "row_effect e Fallback_body c =
     Inr (res_end (Some (Chars (fallback_text e c)))
       (if headersSent (res c) then c
        else set_length (length (fallback_text e c)) (set_type_text c)))"
| "row_effect e (Raw_bytes bs) c = Inr (res_end (Some (Bytes bs)) c)"
| "row_effect e (Plain_text s) c = Inr (res_end (Some (Chars s)) c)"
| "row_effect e (Readable_stream st) c = Inr (pipe st c)"
| "row_effect e (Structured_value v) c =
     (case stringify v of
        Throws m \<Rightarrow> Inl (TypeError m)
      | No_text \<Rightarrow> if headersSent (res c) then Inr (res_end None c) else Inl no_text_error
      | Text b \<Rightarrow>
          Inr (res_end (Some (Chars b))
            (if headersSent (res c) then c else set_length (length b) c)))"

text \<open>The rows that serialize the body.\<close>

fun serializing :: "'st row \<Rightarrow> bool" where
  "serializing Header_only = True"
| "serializing (Structured_value v) = True"
| "serializing _ = False"

text \<open>
  How often the transport response has been terminated: the calls of \<^verbatim>\<open>end\<close> and the
  streams piped into it.
\<close>

definition terminations :: "'st koa_ctx \<Rightarrow> nat" where
  "terminations c = length (ended (res c)) + length (piped (res c))"

text \<open>The payloads that a call of the response helper has handed to \<^verbatim>\<open>res.end\<close>.\<close>

definition payloads :: "failure + 'st koa_ctx \<Rightarrow> payload option list" where
  "payloads r = (case r of Inl err \<Rightarrow> [] | Inr c \<Rightarrow> ended (res c))"

text \<open>The headers of the transport response after a call of the response helper.\<close>

definition headers_after :: "failure + 'st koa_ctx \<Rightarrow> string \<rightharpoonup> string" where
  "headers_after r = (case r of Inl err \<Rightarrow> Map.empty | Inr c \<Rightarrow> headers (res c))"

section \<open>Handling one request\<close>

text \<open>
  \<^verbatim>\<open>handleRequest(ctx, fnMiddleware)\<close>: the status code of the transport response is set to
  404, the composed pipeline runs on the bundle, and its completion is followed by the
  response helper on success and by the error handler of the bundle on failure (also on a
  failure of the response helper). The error handler of the bundle, \<^verbatim>\<open>ctx.onerror\<close>, is
  defined outside the sources and is a parameter. The listener that
  \<^verbatim>\<open>onFinished(res, onerror)\<close> registers is called by the transport, not in this function.
\<close>

definition handleRequest ::
  "env \<Rightarrow> (failure \<Rightarrow> 'st koa_ctx \<Rightarrow> 'st koa_ctx) \<Rightarrow> 'st koa_ctx \<Rightarrow>
   ('st koa_ctx \<Rightarrow> (failure + unit) \<times> 'st koa_ctx) \<Rightarrow> 'st koa_ctx" where
  "handleRequest e ctx_onerror c fnMiddleware =
     (let c1 = c\<lparr>res := (res c)\<lparr>statusCode := 404\<rparr>\<rparr> in
      case fnMiddleware c1 of
        (Inr _, c2) \<Rightarrow>
          (case respond e c2 of
             Inr c3 \<Rightarrow> c3
           | Inl err \<Rightarrow> ctx_onerror err c2)
      | (Inl err, c2) \<Rightarrow> ctx_onerror err c2)"

section \<open>Application\<close>

text \<open>
  The settings of the application that the constructor initializes, the \<^verbatim>\<open>silent\<close> setting
  read by the error handler, and the three template objects \<^verbatim>\<open>this.context\<close>,
  \<^verbatim>\<open>this.request\<close> and \<^verbatim>\<open>this.response\<close>, given by their addresses in the store of
  objects.
\<close>

record application =
  proxy :: bool
  subdomainOffset :: int
  proxyIpHeader :: string
  maxIpsCount :: int
  app_env :: string
  silent :: bool
  app_context :: nat
  app_request :: nat
  app_response :: nat

subsection \<open>Default error handler\<close>

text \<open>
  What can be handed to the error handler: a value that is not an instance of \<^verbatim>\<open>Error\<close>,
  or an error with its name, message, stack (empty when it has none), status and expose flag.
\<close>

record error_value =
  err_name :: string
  err_message :: string
  err_stack :: string
  err_status :: "int option"
  err_expose :: bool

datatype thrown = Non_error jsval | Error_value error_value

text \<open>
  \<^verbatim>\<open>err.toString()\<close> of an error, and the \<^verbatim>\<open>%j\<close> of \<^verbatim>\<open>util.format\<close>: the serialized
  value, \<^verbatim>\<open>undefined\<close> for a value without serialized form, and \<^verbatim>\<open>[Circular]\<close> for a cyclic
  structure.
\<close>

definition toString :: "error_value \<Rightarrow> string" where
  "toString err =
     (if err_name err = [] then err_message err
      else if err_message err = [] then err_name err
      else err_name err @ '': '' @ err_message err)"

definition format_j :: "jsval \<Rightarrow> string" where
    "format_j v =
     (case stringify v of
        Throws m \<Rightarrow> ''[Circular]''
      | No_text \<Rightarrow> ''undefined''
      | Text s \<Rightarrow> s)"

text \<open>
  \<^verbatim>\<open>msg.replace(/^/gm, '  ')\<close>: two spaces at the start of the text and after every line
  terminator (line feed, carriage return, and the line and paragraph separators, which are
  the bytes E2 80 A8 and E2 80 A9).
\<close>

fun after_terminators :: "string \<Rightarrow> string" where
  "after_terminators [] = []"
| "after_terminators (c # cs) =
     (if c = CHR 0x0A \<or> c = CHR 0x0D then c # ''  '' @ after_terminators cs
      else if c = CHR 0xE2 \<and> (take 2 cs = [CHR 0x80, CHR 0xA8] \<or> take 2 cs = [CHR 0x80, CHR 0xA9])
      then c # take 2 cs @ ''  '' @ after_terminators (drop 2 cs)
      else c # after_terminators cs)"

definition indent :: "string \<Rightarrow> string" where
  "indent msg = ''  '' @ after_terminators msg"

text \<open>
  \<^verbatim>\<open>onerror(err)\<close>. The result is what the handler throws, or the lines it has written with
  \<^verbatim>\<open>console.error\<close> when it returns.
\<close>

definition onerror :: "application \<Rightarrow> thrown \<Rightarrow> failure + string list" where
  "onerror this err =
     (case err of
        Non_error v \<Rightarrow> Inl (TypeError (''non-error thrown: '' @ format_j v))
      | Error_value er \<Rightarrow>
          if err_status er = Some 404 \<or> err_expose er then Inr []
          else if silent this then Inr []
          else
            let msg = (if err_stack er \<noteq> [] then err_stack er else toString er)
            in Inr ['''', indent msg, ''''])"

subsection \<open>Creating the per-request objects\<close>

text \<open>
  \<^verbatim>\<open>createContext\<close> builds objects that refer to each other and delegate to shared
  templates, so objects live in a store: an object has a prototype and its own
  properties, an address is a position in the store, and a new object gets the next
  address. A property value is a primitive, a reference to an object, or the application.
\<close>

datatype val = Undefined | Null | Bool bool | Num int | Str string | Ref nat | This_app

record obj =
  proto :: "nat option"
  props :: "string \<rightharpoonup> val"

type_synonym heap = "obj list"



text \<open>
  The read \<^verbatim>\<open>a.k\<close>: the own property, or else the property of the prototype, along the
  chain. A prototype is an object created before the objects that delegate to it, so the
  chain walks down the addresses.
\<close>

function get :: "heap \<Rightarrow> nat \<Rightarrow> string \<Rightarrow> val" where
  "get h a k =
     (if a < length h then
        (case props (h ! a) k of
           Some v \<Rightarrow> v
         | None \<Rightarrow>
             (case proto (h ! a) of
                None \<Rightarrow> Undefined
              | Some p \<Rightarrow> if p < a then get h p k else Undefined))
      else Undefined)"
  by pat_completeness auto
termination
  by (relation "measure (\<lambda>(h, a, k). a)") auto

declare get.simps [simp del]


text \<open>
  The three objects that one call of \<^verbatim>\<open>createContext\<close> leaves in the store besides the
  empty state object, written out (see \<open>createContext_eq\<close>).
\<close>

definition context_object :: "application \<Rightarrow> nat \<Rightarrow> nat \<Rightarrow> heap \<Rightarrow> obj" where
  "context_object this rawRequest rawResponse h0 =
     \<lparr>proto = Some (app_context this),
      props = [''request'' \<mapsto> Ref (length h0 + 1), ''response'' \<mapsto> Ref (length h0 + 2),
               ''app'' \<mapsto> This_app, ''req'' \<mapsto> Ref rawRequest, ''res'' \<mapsto> Ref rawResponse,
               ''originalUrl'' \<mapsto> get h0 rawRequest ''url'',
               ''state'' \<mapsto> Ref (length h0 + 3)]\<rparr>"

definition request_object :: "application \<Rightarrow> nat \<Rightarrow> nat \<Rightarrow> heap \<Rightarrow> obj" where
  "request_object this rawRequest rawResponse h0 =
     \<lparr>proto = Some (app_request this),
      props = [''app'' \<mapsto> This_app, ''req'' \<mapsto> Ref rawRequest, ''res'' \<mapsto> Ref rawResponse,
               ''ctx'' \<mapsto> Ref (length h0), ''response'' \<mapsto> Ref (length h0 + 2),
               ''originalUrl'' \<mapsto> get h0 rawRequest ''url'']\<rparr>"

definition response_object :: "application \<Rightarrow> nat \<Rightarrow> nat \<Rightarrow> heap \<Rightarrow> obj" where
  "response_object this rawRequest rawResponse h0 =
     \<lparr>proto = Some (app_response this),
      props = [''app'' \<mapsto> This_app, ''req'' \<mapsto> Ref rawRequest, ''res'' \<mapsto> Ref rawResponse,
               ''ctx'' \<mapsto> Ref (length h0), ''request'' \<mapsto> Ref (length h0 + 1)]\<rparr>"

section \<open>Example inputs\<close>

text \<open>
  A table of statuses with the no-body class 204, 205 and 304 and the messages of 200 and
  404, and a state bundle for a \<^verbatim>\<open>GET\<close> request over protocol version 1.1 whose response
  already carries a content type and a length.
\<close>

definition example_env :: env where
  "example_env =
     \<lparr>statuses_empty = (\<lambda>code. code = 204 \<or> code = 205 \<or> code = 304),
      statuses_message =
        (\<lambda>code. if code = 200 then ''OK'' else if code = 404 then ''Not Found'' else [])\<rparr>"

definition example_ctx :: "int \<Rightarrow> unit body \<Rightarrow> unit koa_ctx" where
  "example_ctx code b =
     \<lparr>ctx_respond = None, writable = True,
      req = \<lparr>req_method = ''GET'', url = ''/'', httpVersionMajor = 1\<rparr>,
      res = \<lparr>statusCode = code, headersSent = False,
             headers = [''Content-Type'' \<mapsto> ''text/html'', ''Content-Length'' \<mapsto> ''5''],
             ended = [], piped = []\<rparr>,
      ctx_body = b, explicitNullBody = False\<rparr>"

text \<open>The same bundle with the headers of the response sent already.\<close>

definition sent_ctx :: "int \<Rightarrow> unit body \<Rightarrow> unit koa_ctx" where
  "sent_ctx code b = (example_ctx code b)\<lparr>res := (res (example_ctx code b))\<lparr>headersSent := True\<rparr>\<rparr>"

text \<open>A pipeline in which no middleware assigns anything, and an error handler.\<close>

definition idle_pipeline :: "unit koa_ctx \<Rightarrow> (failure + unit) \<times> unit koa_ctx" where
  "idle_pipeline c = (Inr (), c)"

definition ignore_error :: "failure \<Rightarrow> unit koa_ctx \<Rightarrow> unit koa_ctx" where
  "ignore_error err c = c"


definition example_app :: application where
  "example_app =
     \<lparr>proxy = False, subdomainOffset = 2, proxyIpHeader = ''X-Forwarded-For'',
      maxIpsCount = 0, app_env = ''development'', silent = False,
      app_context = 0, app_request = 1, app_response = 2\<rparr>"



text \<open>Two errors: one that is reported, and a not-found error.\<close>

definition example_error :: error_value where
  "example_error =
     \<lparr>err_name = ''Error'', err_message = ''boom'', err_stack = [],
      err_status = Some 500, err_expose = False\<rparr>"

definition not_found_error :: error_value where
  "not_found_error =
     \<lparr>err_name = ''NotFoundError'', err_message = ''Not Found'', err_stack = [],
      err_status = Some 404, err_expose = True\<rparr>"

chapter \<open>Properties\<close>

section \<open>Onion order of the composed handler\<close>

lemma pick_loggers:
  "pick (map logger [0..<N]) None (int i) = (if i < N then Some (logger i) else None)"
  by (simp add: pick_def)

lemma dispatch_loggers:
  "i \<le> N \<Longrightarrow> index s < int i \<Longrightarrow>
   fst (dispatch (map logger [0..<N]) None (int i) s) = Inr () \<and>
   ctx (snd (dispatch (map logger [0..<N]) None (int i) s)) = ctx s @ [i..<N] @ rev [i..<N]"
proof (induction "N - i" arbitrary: i s)
  case 0
  then have "i = N" by simp
  with 0 show ?case
    by (simp add: dispatch.simps [of _ _ "int N"] pick_loggers)
next
  case (Suc d)
  then have lt: "i < N" by simp
  let ?pipeline = "dispatch (map logger [0..<N]) None"
  let ?s1 = "s\<lparr>index := int i, trace := trace s @ [Invoked (int i)], ctx := ctx s @ [i]\<rparr>"
  have ih: "fst (?pipeline (int (Suc i)) ?s1) = Inr () \<and>
        ctx (snd (?pipeline (int (Suc i)) ?s1)) = ctx ?s1 @ [Suc i..<N] @ rev [Suc i..<N]"
    using Suc.hyps(1) [of "Suc i" ?s1] Suc.hyps(2) lt by simp
  obtain r s2 where d: "?pipeline (int i + 1) ?s1 = (r, s2)"
    by (cases "?pipeline (int i + 1) ?s1")
  from ih d have r: "r = Inr ()" and c: "ctx s2 = ctx s @ [i] @ [Suc i..<N] @ rev [Suc i..<N]"
    by (simp_all add: add.commute)
  have "?pipeline (int i) s = (Inr (), s2\<lparr>ctx := ctx s2 @ [i]\<rparr>)"
    using Suc.prems lt d r
    by (simp add: dispatch.simps [of _ _ "int i"] pick_loggers logger_def)
  with c lt show ?case
    by (simp add: upt_conv_Cons)
qed

text \<open>
  C1. For every \<open>N \<ge> 0\<close>, composing the middleware \<open>logger 0, ..., logger (N - 1)\<close>, each of
  which appends its index to the shared log before and after invoking its continuation, and
  running the composed handler on the empty log, completes successfully with the log
  \<open>[0, 1, ..., N-1, N-1, ..., 1, 0]\<close>: downstream code runs in registration order, upstream
  code in exact reverse order. For \<open>N = 0\<close> the log is empty and the handler completes at
  once.
\<close>

theorem onion_order:
  "compose (map logger [0..<N]) None [] = (Inr (), [0..<N] @ rev [0..<N]) \<and>
   compose (map logger [0..<0]) None [] = (Inr (), [])"
proof -
  have "compose (map logger [0..<M]) None [] = (Inr (), [0..<M] @ rev [0..<M])" for M
    using dispatch_loggers [of 0 M "fresh []"]
    by (auto simp: compose_def fresh_def split: prod.splits)
  from this [of N] this [of 0] show ?thesis by simp
qed

section \<open>A continuation invoked more than once\<close>

lemma invoked_append [simp]: "invoked (xs @ ys) = invoked xs @ invoked ys"
  by (induction xs rule: invoked.induct) simp_all

lemma rejected_append [simp]: "rejected (xs @ ys) = rejected xs @ rejected ys"
  by (induction xs rule: rejected.induct) simp_all

lemma caught_append [simp]: "caught (xs @ ys) = caught xs @ caught ys"
  by (induction xs rule: caught.induct) simp_all

lemma dispatch_rejected:
  "i \<le> index s \<Longrightarrow>
   dispatch middleware next i s =
     (Inl (Composition_protocol (i - 1)), s\<lparr>trace := trace s @ [Rejected i]\<rparr>)"
  by (simp add: dispatch.simps [of _ _ i])



















lemma dispatch_minus_one:
  "dispatch middleware next (- 1) (fresh c) =
     (Inl (Composition_protocol (- 2)), (fresh c)\<lparr>trace := [Rejected (- 1)]\<rparr>)"
  by (simp add: dispatch_rejected fresh_def)








section \<open>The response helper\<close>

lemmas respond_ops = status_def message_def has_def set_header_def remove_def set_body_null_def
  set_type_text_def set_length_def res_end_def pipe_def

text \<open>
  C4. For every state bundle that the response helper acts on (not flagged to bypass, still
  writable) whose body is absent, whose status is outside the no-body class, whose method is
  not \<^verbatim>\<open>HEAD\<close> and whose explicit-null-body flag is not set, \<^verbatim>\<open>respond\<close> ends the response
  once, with the fallback body \<open>b\<close>: the stringified status code when the major protocol
  version is at least 2, otherwise the message of the status, or the stringified code if there
  is no message. If the headers are not yet sent, the content type becomes plain text and
  the length header the byte length of \<open>b\<close>; if they are sent, no header changes.
\<close>

theorem respond_fallback_body:
  assumes "ctx_respond c \<noteq> Some False" "writable c"
    and "nullish (ctx_body c)" "\<not> statuses_empty e (status c)"
    and "req_method (req c) \<noteq> ''HEAD''" "\<not> explicitNullBody c"
    and b: "b = (if 2 \<le> httpVersionMajor (req c) then to_string (status c)
              else if statuses_message e (status c) \<noteq> [] then statuses_message e (status c)
              else to_string (status c))"
  shows "\<exists>c'. respond e c = Inr c' \<and>
      ended (res c') = ended (res c) @ [Some (Chars b)] \<and> piped (res c') = piped (res c) \<and>
      headers (res c') =
        (if headersSent (res c) then headers (res c)
         else (headers (res c))(''Content-Type'' \<mapsto> ''text/plain; charset=utf-8'',
                ''Content-Length'' \<mapsto> to_string (int (length b))))"
  using assms by (simp add: respond_def respond_ops Let_def)

text \<open>
  The example of the specification: status 200, no body, protocol version 1.1 and the message
  \<^verbatim>\<open>OK\<close> give the payload \<^verbatim>\<open>OK\<close> and the length 2.
\<close>

theorem respond_fallback_body_witness:
  "ctx_respond (example_ctx 200 (Data JUndefined)) \<noteq> Some False \<and>
   nullish (ctx_body (example_ctx 200 (Data JUndefined))) \<and>
   (\<exists>c'. respond example_env (example_ctx 200 (Data JUndefined)) = Inr c' \<and>
      ended (res c') = [Some (Chars ''OK'')] \<and>
      headers (res c') ''Content-Length'' = Some ''2'' \<and>
      headers (res c') ''Content-Type'' = Some ''text/plain; charset=utf-8'')"
  using respond_fallback_body [of "example_ctx 200 (Data JUndefined)" example_env "''OK''"]
  by (auto simp: example_env_def example_ctx_def status_def to_string_def digits.simps
      digit_char_def)

text \<open>
  C5, as the response helper has it. For every state bundle that the response helper acts
  on whose status code belongs to the no-body class, \<^verbatim>\<open>respond\<close> discards the body,
  whatever it was, and ends the response once without payload, with the status code it had.
  If the headers are not yet sent, the response has no length, no content type and no
  transfer encoding header afterwards; if they are sent, the headers stay as they are.
\<close>

theorem respond_no_body_status:
  assumes "ctx_respond c \<noteq> Some False" "writable c" "statuses_empty e (status c)"
  shows "\<exists>c'. respond e c = Inr c' \<and>
      ended (res c') = ended (res c) @ [None] \<and> piped (res c') = piped (res c) \<and>
      ctx_body c' = Data JNull \<and> statusCode (res c') = statusCode (res c) \<and>
      (\<not> headersSent (res c) \<longrightarrow>
         headers (res c') ''Content-Length'' = None \<and>
         headers (res c') ''Content-Type'' = None \<and>
         headers (res c') ''Transfer-Encoding'' = None) \<and>
      (headersSent (res c) \<longrightarrow> headers (res c') = headers (res c))"
  using assms by (simp add: respond_def respond_ops Let_def)

theorem respond_no_body_status_witness:
  "statuses_empty example_env (status (example_ctx 204 (Data (JStr ''hello'')))) \<and>
   \<not> headersSent (res (example_ctx 204 (Data (JStr ''hello'')))) \<and>
   headers (res (example_ctx 204 (Data (JStr ''hello'')))) ''Content-Length'' = Some ''5'' \<and>
   (\<exists>c'. respond example_env (example_ctx 204 (Data (JStr ''hello''))) = Inr c' \<and>
      ended (res c') = [None] \<and>
      ctx_body c' = Data JNull \<and>
      headers (res c') ''Content-Length'' = None \<and>
      headers (res c') ''Content-Type'' = None)"
  using respond_no_body_status [of "example_ctx 204 (Data (JStr ''hello''))" example_env]
  by (auto simp: example_env_def example_ctx_def status_def)

text \<open>
  The body-related headers do not always go: a response with status 204 whose headers are
  sent already, with a length and a content type among them, is ended without payload and
  keeps both headers.
\<close>

theorem sent_headers_kept:
  "statuses_empty example_env (status (sent_ctx 204 (Data (JStr ''hello'')))) \<and>
   ctx_respond (sent_ctx 204 (Data (JStr ''hello''))) \<noteq> Some False \<and>
   writable (sent_ctx 204 (Data (JStr ''hello''))) \<and>
   payloads (respond example_env (sent_ctx 204 (Data (JStr ''hello'')))) = [None] \<and>
   headers_after (respond example_env (sent_ctx 204 (Data (JStr ''hello'')))) ''Content-Length'' =
     Some ''5'' \<and>
   headers_after (respond example_env (sent_ctx 204 (Data (JStr ''hello'')))) ''Content-Type'' =
     Some ''text/html''"
  by (simp add: payloads_def headers_after_def respond_def respond_ops Let_def example_env_def
      sent_ctx_def example_ctx_def)

lemma respond_row:
  assumes "ctx_respond c \<noteq> Some False" "writable c"
  shows "respond e c = row_effect e (table_row e c) c"
proof (cases "ctx_body c")
  case (Data v)
  with assms show ?thesis
    by (cases v)
      (auto simp: respond_def table_row_def fallback_text_def message_def Let_def
        split: serialized.splits sum.splits option.splits)
next
  case (Buffer bs)
  with assms show ?thesis
    by (auto simp: respond_def table_row_def Let_def split: sum.splits option.splits)
next
  case (Stream st)
  with assms show ?thesis
    by (auto simp: respond_def table_row_def Let_def split: sum.splits option.splits)
qed

lemma row_effect_terminates:
  assumes "row_effect e r c = Inr c'"
  shows "terminations c' = terminations c + 1"
  using assms
  by (cases r)
    (auto simp: terminations_def respond_ops Let_def
      split: if_splits serialized.splits sum.splits option.splits)

lemma row_effect_fails:
  assumes "row_effect e r c = Inl err"
  shows "serializing r"
  using assms by (cases r) simp_all

text \<open>
  C6. For every state bundle, \<^verbatim>\<open>respond\<close> leaves the bundle and the transport response as
  they are (no call of \<^verbatim>\<open>end\<close>, no header change) when the bypass flag is set
  (\<^verbatim>\<open>ctx.respond === false\<close>) or the response is no longer writable. Otherwise it does what
  exactly one row of the decision table says, the first row whose condition holds for the
  bundle. When it returns, the transport response has been terminated exactly once more, by
  one call of \<^verbatim>\<open>end\<close> or by one pipe; it throws only in a row that serializes the body (the
  serialization fails, or the body has no serialized form to take the length of).
\<close>

theorem respond_bypass_or_one_branch:
  "(ctx_respond c = Some False \<or> \<not> writable c \<longrightarrow> respond e c = Inr c) \<and>
   (ctx_respond c \<noteq> Some False \<and> writable c \<longrightarrow>
      respond e c = row_effect e (table_row e c) c \<and>
      (\<forall>c'. respond e c = Inr c' \<longrightarrow> terminations c' = terminations c + 1) \<and>
      (\<forall>err. respond e c = Inl err \<longrightarrow> serializing (table_row e c)))"
proof (intro conjI impI)
  assume "ctx_respond c = Some False \<or> \<not> writable c"
  then show "respond e c = Inr c" by (auto simp: respond_def)
next
  assume active: "ctx_respond c \<noteq> Some False \<and> writable c"
  then show row: "respond e c = row_effect e (table_row e c) c"
    by (simp add: respond_row)
  show "\<forall>c'. respond e c = Inr c' \<longrightarrow> terminations c' = terminations c + 1"
    unfolding row by (blast intro: row_effect_terminates)
  show "\<forall>err. respond e c = Inl err \<longrightarrow> serializing (table_row e c)"
    unfolding row by (blast intro: row_effect_fails)
qed

text \<open>
  A bundle flagged to bypass the response helper is left as it is; the same bundle without
  the flag falls into the row of a text body and is ended with the text; a body that is a
  cyclic array falls into the last row, where the serialization throws.
\<close>

theorem respond_bypass_or_one_branch_witness:
  "respond example_env ((example_ctx 200 (Data (JStr ''hello'')))\<lparr>ctx_respond := Some False\<rparr>) =
     Inr ((example_ctx 200 (Data (JStr ''hello'')))\<lparr>ctx_respond := Some False\<rparr>) \<and>
   writable (example_ctx 200 (Data (JStr ''hello''))) \<and>
   table_row example_env (example_ctx 200 (Data (JStr ''hello''))) = Plain_text ''hello'' \<and>
   respond example_env (example_ctx 200 (Data (JStr ''hello''))) =
     Inr (res_end (Some (Chars ''hello'')) (example_ctx 200 (Data (JStr ''hello'')))) \<and>
   terminations (res_end (Some (Chars ''hello'')) (example_ctx 200 (Data (JStr ''hello'')))) = 1 \<and>
   table_row example_env (example_ctx 200 (Data (JArr [JCycle]))) =
     Structured_value (JArr [JCycle]) \<and>
   respond example_env (example_ctx 200 (Data (JArr [JCycle]))) =
     Inl (TypeError ''Converting circular structure to JSON'')"
proof -
  let ?c = "example_ctx 200 (Data (JStr ''hello''))"
  let ?d = "example_ctx 200 (Data (JArr [JCycle]))"
  have rows: "table_row example_env ?c = Plain_text ''hello''"
    "table_row example_env ?d = Structured_value (JArr [JCycle])"
    by (simp_all add: table_row_def example_env_def example_ctx_def status_def)
  have active: "ctx_respond ?c \<noteq> Some False \<and> writable ?c"
    "ctx_respond ?d \<noteq> Some False \<and> writable ?d"
    by (simp_all add: example_ctx_def)
  have "respond example_env (?c\<lparr>ctx_respond := Some False\<rparr>) = Inr (?c\<lparr>ctx_respond := Some False\<rparr>)"
    using respond_bypass_or_one_branch [of "?c\<lparr>ctx_respond := Some False\<rparr>" example_env]
    by simp
  moreover have "respond example_env ?c = Inr (res_end (Some (Chars ''hello'')) ?c)"
    using respond_bypass_or_one_branch [of ?c example_env] active(1) rows(1) by simp
  moreover have "terminations (res_end (Some (Chars ''hello'')) ?c) = 1"
    by (simp add: terminations_def res_end_def example_ctx_def)
  moreover have "respond example_env ?d = Inl (TypeError ''Converting circular structure to JSON'')"
    using respond_bypass_or_one_branch [of ?d example_env] active(2) rows(2) by simp
  ultimately show ?thesis using active(1) rows by simp
qed

text \<open>
  C7. For every state bundle that the response helper acts on whose body is a byte buffer or
  text, with a status outside the no-body class (whatever the status code is) and a method
  other than \<^verbatim>\<open>HEAD\<close>, \<^verbatim>\<open>respond\<close> ends the response once with exactly that body as payload
  and changes neither the headers nor the status code.
\<close>

theorem respond_raw_body:
  assumes "ctx_respond c \<noteq> Some False" "writable c"
    and "\<not> statuses_empty e (status c)" "req_method (req c) \<noteq> ''HEAD''"
    and "ctx_body c = Buffer bs \<and> p = Bytes bs \<or> ctx_body c = Data (JStr s) \<and> p = Chars s"
  shows "\<exists>c'. respond e c = Inr c' \<and>
      ended (res c') = ended (res c) @ [Some p] \<and> piped (res c') = piped (res c) \<and>
      headers (res c') = headers (res c) \<and> statusCode (res c') = statusCode (res c)"
  using assms by (auto simp: respond_def respond_ops Let_def)

theorem respond_raw_body_witness:
  "\<not> statuses_empty example_env (status (example_ctx 500 (Buffer [104, 105]))) \<and>
   (\<exists>c'. respond example_env (example_ctx 500 (Buffer [104, 105])) = Inr c' \<and>
      ended (res c') = [Some (Bytes [104, 105])] \<and>
      headers (res c') = headers (res (example_ctx 500 (Buffer [104, 105]))))"
  using respond_raw_body [of "example_ctx 500 (Buffer [104, 105])" example_env "[104, 105]"
      "Bytes [104, 105]"]
  by (auto simp: example_env_def example_ctx_def status_def)

section \<open>The default status of a request\<close>

text \<open>
  C10. \<^verbatim>\<open>handleRequest\<close> sets the status code of the transport response to 404 before it
  invokes the pipeline: the pipeline runs on the bundle with that status, whatever status the
  bundle arrived with. If the pipeline completes and no middleware has assigned a status or
  a body (the status is still 404 and the body absent), the finalized response carries the
  status 404; and where the response helper acts on the bundle (not bypassed, writable, 404
  outside the no-body class, method other than \<^verbatim>\<open>HEAD\<close>, no explicit-null-body flag), the
  response ends with the fallback body of 404: \<^verbatim>\<open>404\<close> when the major protocol version is at
  least 2, otherwise the message of 404, or \<^verbatim>\<open>404\<close> if there is none.
\<close>

theorem handleRequest_default_404:
  assumes run: "fnMiddleware (c\<lparr>res := (res c)\<lparr>statusCode := 404\<rparr>\<rparr>) = (Inr (), c2)"
    and untouched: "status c2 = 404" "nullish (ctx_body c2)"
    and b: "b = (if 2 \<le> httpVersionMajor (req c2) then ''404''
              else if statuses_message e 404 \<noteq> [] then statuses_message e 404 else ''404'')"
  shows "handleRequest e ctx_onerror c fnMiddleware =
      handleRequest e ctx_onerror (c\<lparr>res := (res c)\<lparr>statusCode := 404\<rparr>\<rparr>) fnMiddleware \<and>
    statusCode (res (handleRequest e ctx_onerror c fnMiddleware)) = 404 \<and>
    (ctx_respond c2 \<noteq> Some False \<and> writable c2 \<and> \<not> statuses_empty e 404 \<and>
     req_method (req c2) \<noteq> ''HEAD'' \<and> \<not> explicitNullBody c2 \<longrightarrow>
       ended (res (handleRequest e ctx_onerror c fnMiddleware)) =
         ended (res c2) @ [Some (Chars b)])"
proof -
  have s404: "to_string 404 = ''404''"
    by (simp add: to_string_def digits.simps digit_char_def)
  have "handleRequest e ctx_onerror c fnMiddleware =
      handleRequest e ctx_onerror (c\<lparr>res := (res c)\<lparr>statusCode := 404\<rparr>\<rparr>) fnMiddleware"
    by (simp add: handleRequest_def)
  moreover have "\<exists>c3. respond e c2 = Inr c3 \<and> statusCode (res c3) = 404"
    using untouched
    by (cases "ctx_body c2" rule: nullish.cases)
      (auto simp: respond_def respond_ops response_length_def Let_def split: option.splits)
  then have "statusCode (res (handleRequest e ctx_onerror c fnMiddleware)) = 404"
    using run by (auto simp: handleRequest_def)
  moreover have "ended (res (handleRequest e ctx_onerror c fnMiddleware)) =
         ended (res c2) @ [Some (Chars b)]"
    if "ctx_respond c2 \<noteq> Some False" "writable c2" "\<not> statuses_empty e 404"
      "req_method (req c2) \<noteq> ''HEAD''" "\<not> explicitNullBody c2"
    using run untouched that b s404
    by (auto simp: handleRequest_def respond_def respond_ops Let_def)
  ultimately show ?thesis by blast
qed

theorem handleRequest_default_404_witness:
  "idle_pipeline
      ((example_ctx 200 (Data JUndefined))
         \<lparr>res := (res (example_ctx 200 (Data JUndefined)))\<lparr>statusCode := 404\<rparr>\<rparr>) =
     (Inr (), (example_ctx 200 (Data JUndefined))
         \<lparr>res := (res (example_ctx 200 (Data JUndefined)))\<lparr>statusCode := 404\<rparr>\<rparr>) \<and>
   statusCode (res (handleRequest example_env ignore_error (example_ctx 200 (Data JUndefined))
      idle_pipeline)) = 404 \<and>
   ended (res (handleRequest example_env ignore_error (example_ctx 200 (Data JUndefined))
      idle_pipeline)) = [Some (Chars ''Not Found'')]"
proof -
  let ?c = "example_ctx 200 (Data JUndefined)"
  let ?c1 = "?c\<lparr>res := (res ?c)\<lparr>statusCode := 404\<rparr>\<rparr>"
  have run: "idle_pipeline ?c1 = (Inr (), ?c1)"
    by (simp add: idle_pipeline_def)
  have st: "status ?c1 = 404" and nb: "nullish (ctx_body ?c1)"
    by (simp_all add: example_ctx_def status_def)
  have active: "ctx_respond ?c1 \<noteq> Some False \<and> writable ?c1 \<and> \<not> statuses_empty example_env 404 \<and>
      req_method (req ?c1) \<noteq> ''HEAD'' \<and> \<not> explicitNullBody ?c1"
    by (simp add: example_ctx_def example_env_def)
  have b: "(if 2 \<le> httpVersionMajor (req ?c1) then ''404''
            else if statuses_message example_env 404 \<noteq> [] then statuses_message example_env 404
            else ''404'') = ''Not Found''"
    by (simp add: example_ctx_def example_env_def)
  have e: "ended (res ?c1) = []"
    by (simp add: example_ctx_def)
  from handleRequest_default_404 [of idle_pipeline ?c ?c1 _ example_env ignore_error,
      OF run st nb refl] active
  have "statusCode (res (handleRequest example_env ignore_error ?c idle_pipeline)) = 404"
    and "ended (res (handleRequest example_env ignore_error ?c idle_pipeline)) =
      ended (res ?c1) @ [Some (Chars ''Not Found'')]"
    unfolding b by blast+
  with run e show ?thesis by simp
qed


section \<open>The default error handler\<close>

text \<open>
  C9. For every value handed to \<^verbatim>\<open>onerror\<close>: if it is not an error, the handler itself
  throws a \<^verbatim>\<open>TypeError\<close>; if it is an error with status 404 or with the expose flag, or the
  application is silent, the handler returns without writing anything; otherwise it returns
  after writing an empty line, the stack of the error (its \<^verbatim>\<open>toString()\<close> if it has no
  stack) indented by two spaces, and an empty line. Throwing and returning are the only
  outcomes: the handler never ends the process.
\<close>

theorem onerror_cases:
  "onerror this (Non_error v) = Inl (TypeError (''non-error thrown: '' @ format_j v)) \<and>
   (err_status er = Some 404 \<or> err_expose er \<or> silent this \<longrightarrow>
      onerror this (Error_value er) = Inr []) \<and>
   (err_status er \<noteq> Some 404 \<and> \<not> err_expose er \<and> \<not> silent this \<longrightarrow>
      onerror this (Error_value er) =
        Inr ['''', indent (if err_stack er \<noteq> [] then err_stack er else toString er), ''''])"
  by (auto simp: onerror_def)

theorem onerror_cases_witness:
  "onerror example_app (Non_error (JStr ''boom'')) =
     Inl (TypeError (''non-error thrown: '' @ format_j (JStr ''boom''))) \<and>
   err_status not_found_error = Some 404 \<and>
   onerror example_app (Error_value not_found_error) = Inr [] \<and>
   err_status example_error \<noteq> Some 404 \<and>
   onerror example_app (Error_value example_error) = Inr ['''', ''  Error: boom'', '''']"
  using onerror_cases [of example_app "JStr ''boom''" not_found_error]
    onerror_cases [of example_app "JStr ''boom''" example_error]
  by (simp add: example_app_def example_error_def not_found_error_def toString_def indent_def)

section \<open>Isolation of the per-request objects\<close>













lemma object_protos [simp]:
  "proto (context_object this rq rs h) = Some (app_context this)"
  "proto (request_object this rq rs h) = Some (app_request this)"
  "proto (response_object this rq rs h) = Some (app_response this)"
  by (simp_all add: context_object_def request_object_def response_object_def)







end
